theory Spec2Isabelle
  imports Main "HOL-Library.Sublist"
begin

section \<open>Strings as the exporter uses them\<close>

text \<open>
  The exporter (\<^verbatim>\<open>googlecode-issues-exporter/issues.py\<close>) works on Python strings.
  They are modelled as \<^typ>\<open>string\<close>; the few string operations of the standard
  library that the source calls are written out here: \<^verbatim>\<open>str.split("\n")\<close>,
  \<^verbatim>\<open>"\n".join\<close>, \<^verbatim>\<open>str.lower\<close> (on ASCII letters), \<^verbatim>\<open>%s\<close>/\<^verbatim>\<open>%d\<close> of an
  integer, and the three regular expressions of \<^verbatim>\<open>FixUpComment\<close>.
\<close>

text \<open>\<^verbatim>\<open>str.lower\<close>, on the ASCII letters.\<close>

definition lower_char :: "char \<Rightarrow> char" where
  "lower_char c =
     (case map_of (zip ''ABCDEFGHIJKLMNOPQRSTUVWXYZ'' ''abcdefghijklmnopqrstuvwxyz'') c of
        None \<Rightarrow> c
      | Some l \<Rightarrow> l)"

definition lower :: "string \<Rightarrow> string" where
  "lower s = map lower_char s"

text \<open>\<^verbatim>\<open>"%s" % n\<close> and \<^verbatim>\<open>"%d" % n\<close> for an integer \<open>n\<close>: its decimal digits.\<close>

definition digit_char :: "nat \<Rightarrow> char" where
  "digit_char n = ''0123456789'' ! (n mod 10)"

function str_nat :: "nat \<Rightarrow> string" where
  "str_nat n = (if n < 10 then [digit_char n] else str_nat (n div 10) @ [digit_char n])"
  by pat_completeness auto
termination
  by (relation "measure (\<lambda>n. n)") auto

declare str_nat.simps [simp del]

definition str_int :: "int \<Rightarrow> string" where
  "str_int i = (if i < 0 then CHR ''-'' # str_nat (nat (- i)) else str_nat (nat i))"

text \<open>\<^verbatim>\<open>"%s" % x\<close> where \<open>x\<close> is a string or \<^verbatim>\<open>None\<close>.\<close>

definition str_opt :: "string option \<Rightarrow> string" where
  "str_opt x = (case x of None \<Rightarrow> ''None'' | Some s \<Rightarrow> s)"

definition newline :: char where
  "newline = CHR 0x0A"

text \<open>\<^verbatim>\<open>s.split("\n")\<close>: the result is never empty, \<^verbatim>\<open>"".split("\n") == [""]\<close>.\<close>

fun split_lines :: "string \<Rightarrow> string list" where
  "split_lines [] = [[]]"
| "split_lines (c # cs) =
     (if c = newline then [] # split_lines cs
      else (case split_lines cs of
              [] \<Rightarrow> [[c]]
            | l # ls \<Rightarrow> (c # l) # ls))"

text \<open>\<^verbatim>\<open>"\n".join(lines)\<close>.\<close>

fun join_lines :: "string list \<Rightarrow> string" where
  "join_lines [] = []"
| "join_lines [l] = l"
| "join_lines (l # m # ls) = l @ newline # join_lines (m # ls)"

definition is_digit :: "char \<Rightarrow> bool" where
  "is_digit c \<longleftrightarrow> c \<in> set ''0123456789''"

text \<open>\<^verbatim>\<open>re.match(r'^#+ ', line)\<close>: one or more \<^verbatim>\<open>#\<close>, then a space.\<close>

definition match_heading :: "string \<Rightarrow> bool" where
  "match_heading line =
     (takeWhile (\<lambda>c. c = CHR ''#'') line \<noteq> [] \<and>
      (case dropWhile (\<lambda>c. c = CHR ''#'') line of
         [] \<Rightarrow> False
       | c # _ \<Rightarrow> c = CHR '' ''))"

text \<open>\<^verbatim>\<open>re.match(r'^Index: ', line)\<close>.\<close>

definition match_Index :: "string \<Rightarrow> bool" where
  "match_Index line = prefix ''Index: '' line"

text \<open>
  \<^verbatim>\<open>re.sub(r"#(\d+)", r"#&nbsp;\g<1>", line)\<close>: scanning from the left, a \<^verbatim>\<open>#\<close>
  followed by a (maximal, non-empty) run of digits is replaced by \<^verbatim>\<open>#&nbsp;\<close> and the
  run; the scan resumes after the run.
\<close>

function sub_issue_refs :: "string \<Rightarrow> string" where
  "sub_issue_refs [] = []"
| "sub_issue_refs (c # cs) =
     (if c = CHR ''#'' \<and> takeWhile is_digit cs \<noteq> []
      then ''#&nbsp;'' @ takeWhile is_digit cs @ sub_issue_refs (dropWhile is_digit cs)
      else c # sub_issue_refs cs)"
  by pat_completeness auto
termination
  by (relation "measure length") (auto simp: le_imp_less_Suc length_dropWhile_le)

section \<open>FixUpComment\<close>

text \<open>
  The loop of \<^verbatim>\<open>FixUpComment\<close> over the lines of the comment. The first argument is
  the flag \<^verbatim>\<open>preformat_rest_of_comment\<close> as it stands when the line is reached; the
  result is the list \<^verbatim>\<open>formatted\<close>.
\<close>

fun FixUpComment_loop :: "bool \<Rightarrow> string list \<Rightarrow> string list" where
  "FixUpComment_loop preformat_rest_of_comment [] = []"
| "FixUpComment_loop preformat_rest_of_comment (line # rest) =
     (let preformat_rest_of_comment =
            (if match_heading line \<or> match_Index line then True
             else if sublist ''--- cut here ---'' line then True
             else preformat_rest_of_comment)
      in (if preformat_rest_of_comment then ''    '' @ line else sub_issue_refs line)
         # FixUpComment_loop preformat_rest_of_comment rest)"

definition FixUpComment :: "string \<Rightarrow> string" where
  "FixUpComment comment = join_lines (FixUpComment_loop False (split_lines comment))"

section \<open>The archive: issues, comments, attachments\<close>

text \<open>
  The archive is parsed JSON. A dictionary with a fixed set of keys is a record; a key
  that the source tests with \<^verbatim>\<open>in\<close> before reading it is an optional field
  (\<open>None\<close>: the key is absent). The value of \<^verbatim>\<open>issue["comments"]["items"]\<close> is the
  field \<open>i_comments\<close>, that of \<^verbatim>\<open>comment["author"]["name"]\<close> the field \<open>c_author\<close>.
\<close>

record Attachment =
  a_fileName :: string
  a_isDeleted :: "bool option"

record Comment =
  c_id :: int
  c_content :: string
  c_published :: string
  c_author :: "string option"
  c_attachments :: "Attachment list option"

record Issue =
  i_id :: int
  i_title :: string
  i_status :: string
  i_state :: "string option"
  i_comments :: "Comment list"

text \<open>
  The user map that \<^verbatim>\<open>LoadUserData\<close> builds is a
  \<^verbatim>\<open>collections.defaultdict(lambda: default_username)\<close>: the explicit entries and the
  value every other key reads as.
\<close>

record UserMap =
  um_entries :: "(string \<times> string) list"
  um_default :: string

definition UserMap_getitem :: "UserMap \<Rightarrow> string \<Rightarrow> string" where
  "UserMap_getitem user_map username =
     (case map_of (um_entries user_map) username of
        None \<Rightarrow> um_default user_map
      | Some mapped \<Rightarrow> mapped)"

datatype error =
    InvalidUserError string
  | ProjectNotFoundError string
  | ServiceError string
  | RuntimeError string
  | KeyError string
  | IndexError string
  | NameError string

subsection \<open>GoogleCodeIssue\<close>

record GoogleCodeIssue =
  gi_issue :: Issue
  gi_project_name :: string
  gi_user_map :: UserMap

definition GetProjectName :: "GoogleCodeIssue \<Rightarrow> string" where
  "GetProjectName self = gi_project_name self"

definition GetUserMap :: "GoogleCodeIssue \<Rightarrow> UserMap" where
  "GetUserMap self = gi_user_map self"

definition Issue_GetId :: "GoogleCodeIssue \<Rightarrow> int" where
  "Issue_GetId self = i_id (gi_issue self)"

definition GetTitle :: "GoogleCodeIssue \<Rightarrow> string" where
  "GetTitle self = i_title (gi_issue self)"

definition GetStatus :: "GoogleCodeIssue \<Rightarrow> string" where
  "GetStatus self =
     (let status = lower (i_status (gi_issue self))
      in if status = ''accepted'' then ''open'' else status)"

text \<open>\<^verbatim>\<open>self._issue["comments"]["items"][1:]\<close>: a slice, empty on an empty list.\<close>

definition GetComments :: "GoogleCodeIssue \<Rightarrow> Comment list" where
  "GetComments self = drop 1 (i_comments (gi_issue self))"

definition IsOpen :: "GoogleCodeIssue \<Rightarrow> bool" where
  "IsOpen self \<longleftrightarrow> i_state (gi_issue self) \<noteq> None \<and> i_state (gi_issue self) = Some ''open''"

subsection \<open>GoogleCodeComment\<close>

record GoogleCodeComment =
  gc_googlecode_issue :: GoogleCodeIssue
  gc_comment :: Comment

definition GetIssue :: "GoogleCodeComment \<Rightarrow> GoogleCodeIssue" where
  "GetIssue self = gc_googlecode_issue self"

definition Comment_GetId :: "GoogleCodeComment \<Rightarrow> int" where
  "Comment_GetId self = c_id (gc_comment self)"

definition Comment_GetCreatedOn :: "GoogleCodeComment \<Rightarrow> string" where
  "Comment_GetCreatedOn self = c_published (gc_comment self)"

definition Comment_GetAuthor :: "GoogleCodeComment \<Rightarrow> string option" where
  "Comment_GetAuthor self =
     (case c_author (gc_comment self) of
        None \<Rightarrow> None
      | Some author \<Rightarrow> Some (UserMap_getitem (GetUserMap (GetIssue self)) author))"

text \<open>The nested function \<^verbatim>\<open>has_extension\<close> of \<^verbatim>\<open>GetContent\<close>.\<close>

definition has_extension :: "Attachment \<Rightarrow> string \<Rightarrow> bool" where
  "has_extension attachment extension = suffix extension (lower (a_fileName attachment))"

text \<open>
  The loop \<^verbatim>\<open>for extension in [...]: is_image_attachment |= has_extension(".png")\<close>.
  The second argument is \<^verbatim>\<open>is_image_attachment\<close>; the body tests the literal
  \<^verbatim>\<open>".png"\<close> on every round, whatever \<^verbatim>\<open>extension\<close> is.
\<close>

fun is_image_loop :: "Attachment \<Rightarrow> bool \<Rightarrow> string list \<Rightarrow> bool" where
  "is_image_loop attachment is_image_attachment [] = is_image_attachment"
| "is_image_loop attachment is_image_attachment (extension # rest) =
     is_image_loop attachment (is_image_attachment \<or> has_extension attachment ''.png'') rest"

definition attachment_link :: "GoogleCodeComment \<Rightarrow> Attachment \<Rightarrow> string" where
  "attachment_link self attachment =
     ''https://storage.googleapis.com/google-code-attachments/'' @
     GetProjectName (GetIssue self) @ ''/issue-'' @ str_int (Issue_GetId (GetIssue self)) @
     ''/comment-'' @ str_int (Comment_GetId self) @ ''/'' @ a_fileName attachment"

text \<open>One round of the loop over the attachments: the line it appends.\<close>

definition attachment_line :: "GoogleCodeComment \<Rightarrow> Attachment \<Rightarrow> string" where
  "attachment_line self attachment =
     (if a_isDeleted attachment \<noteq> None
      then '' * *Attachment: '' @ a_fileName attachment @ '' (deleted)*''
      else
        let link = attachment_link self attachment;
            is_image_attachment =
              is_image_loop attachment False
                [''.png'', ''.jpg'', ''.jpeg'', ''.bmp'', ''.tif'', ''.gif'']
        in if is_image_attachment
           then '' * *Attachment: '' @ a_fileName attachment @ ''<br>!['' @
                a_fileName attachment @ '']('' @ link @ '')*''
           else '' * *Attachment: ['' @ a_fileName attachment @ '']('' @ link @ '')*'')"

definition GetContent :: "GoogleCodeComment \<Rightarrow> string" where
  "GetContent self =
     (let body = c_content (gc_comment self);
          attachmentLines =
            map (attachment_line self)
              (case c_attachments (gc_comment self) of None \<Rightarrow> [] | Some as \<Rightarrow> as)
      in if length attachmentLines > 0
         then body @ newline # ''<hr>'' @ newline # join_lines attachmentLines
         else body)"

definition Comment_GetDescription :: "GoogleCodeComment \<Rightarrow> string" where
  "Comment_GetDescription self =
     (let source_issue_id = Issue_GetId (GetIssue self);
          project_name = GetProjectName (GetIssue self);
          author = Comment_GetAuthor self;
          comment_date = Comment_GetCreatedOn self;
          comment_id = Comment_GetId self;
          comment_text = GetContent self;
          comment_text = (if comment_text = [] then ''&lt;empty&gt;''
                          else FixUpComment comment_text);
          orig_comment_url =
            ''https://code.google.com/p/'' @ project_name @ ''/issues/detail?id='' @
            str_int source_issue_id @ ''#c'' @ str_int comment_id
      in ''Comment [#'' @ str_int comment_id @ '']('' @ orig_comment_url @
         '') originally posted by '' @ str_opt author @ '' on '' @ comment_date @
         '':'' @ [newline, newline] @ comment_text)"

text \<open>
  The condition under which a line switches the flag on, in the words of the
  specification: the line matches the heading pattern, begins with \<^verbatim>\<open>Index: \<close> or
  contains the marker \<^verbatim>\<open>--- cut here ---\<close>.
\<close>

definition preformat_trigger :: "string \<Rightarrow> bool" where
  "preformat_trigger line \<longleftrightarrow>
     match_heading line \<or> match_Index line \<or> sublist ''--- cut here ---'' line"

section \<open>Properties of FixUpComment\<close>

lemma is_digit_not_hash: "is_digit c \<Longrightarrow> c \<noteq> CHR ''#''"
  by (auto simp: is_digit_def)

lemma sub_issue_refs_digits:
  "\<forall>c\<in>set ds. is_digit c \<Longrightarrow> sub_issue_refs (ds @ rest) = ds @ sub_issue_refs rest"
  by (induction ds) (auto simp: is_digit_not_hash)

text \<open>
  Read one character at a time, the substitution inserts \<^verbatim>\<open>&nbsp;\<close> after every
  \<^verbatim>\<open>#\<close> that is directly followed by a digit and copies everything else.
\<close>

lemma takeWhile_nonempty:
  "takeWhile P cs \<noteq> [] \<longleftrightarrow> (case cs of [] \<Rightarrow> False | d # _ \<Rightarrow> P d)"
  by (cases cs) auto

lemma sub_issue_refs_step:
  "sub_issue_refs (c # cs) =
     (if c = CHR ''#'' \<and> (case cs of [] \<Rightarrow> False | d # _ \<Rightarrow> is_digit d)
      then ''#&nbsp;'' @ sub_issue_refs cs else c # sub_issue_refs cs)"
proof -
  have d: "\<forall>c\<in>set (takeWhile is_digit cs). is_digit c"
    by (auto dest: set_takeWhileD)
  have "sub_issue_refs (takeWhile is_digit cs @ dropWhile is_digit cs) =
          takeWhile is_digit cs @ sub_issue_refs (dropWhile is_digit cs)"
    by (rule sub_issue_refs_digits[OF d])
  hence e: "takeWhile is_digit cs @ sub_issue_refs (dropWhile is_digit cs) = sub_issue_refs cs"
    by (simp only: takeWhile_dropWhile_id)
  have "sub_issue_refs (c # cs) =
     (if c = CHR ''#'' \<and> takeWhile is_digit cs \<noteq> []
      then ''#&nbsp;'' @ (takeWhile is_digit cs @ sub_issue_refs (dropWhile is_digit cs))
      else c # sub_issue_refs cs)"
    by (simp only: sub_issue_refs.simps)
  thus ?thesis
    by (simp only: e takeWhile_nonempty)
qed

lemma FixUpComment_loop_True:
  "FixUpComment_loop True ls = map (\<lambda>l. ''    '' @ l) ls"
  by (induction ls) (auto simp: Let_def)

lemma FixUpComment_loop_False:
  "FixUpComment_loop False ls =
     map sub_issue_refs (takeWhile (\<lambda>l. \<not> preformat_trigger l) ls) @
     map (\<lambda>l. ''    '' @ l) (dropWhile (\<lambda>l. \<not> preformat_trigger l) ls)"
  by (induction ls) (auto simp: Let_def preformat_trigger_def FixUpComment_loop_True)

text \<open>
  Claim C5. \<^verbatim>\<open>FixUpComment\<close> is a function of its input alone. The lines before the
  first trigger line are each passed through the substitution of \<^verbatim>\<open>#<digits>\<close> by
  \<^verbatim>\<open>#&nbsp;<digits>\<close>; the first trigger line and every line after it are emitted
  with four spaces in front and nothing else changed, so the preformatted state never
  ends and no \<^verbatim>\<open>#<digits>\<close> is rewritten inside it. The substitution inserts
  \<^verbatim>\<open>&nbsp;\<close> after each \<^verbatim>\<open>#\<close> that a digit follows and copies every other
  character. For \<^verbatim>\<open># Heading\<close> followed by \<^verbatim>\<open>#42 is broken\<close> both lines are
  indented verbatim; \<^verbatim>\<open>#42\<close> before any trigger becomes \<^verbatim>\<open>#&nbsp;42\<close>.
\<close>

theorem FixUpComment_preformat_one_way:
  "FixUpComment comment =
     join_lines
       (map sub_issue_refs (takeWhile (\<lambda>l. \<not> preformat_trigger l) (split_lines comment)) @
        map (\<lambda>l. ''    '' @ l) (dropWhile (\<lambda>l. \<not> preformat_trigger l) (split_lines comment)))
   \<and> sub_issue_refs (c # cs) =
       (if c = CHR ''#'' \<and> (case cs of [] \<Rightarrow> False | d # _ \<Rightarrow> is_digit d)
        then ''#&nbsp;'' @ sub_issue_refs cs else c # sub_issue_refs cs)
   \<and> FixUpComment ''# Heading\<newline>#42 is broken'' = ''    # Heading\<newline>    #42 is broken''
   \<and> FixUpComment ''#42 is broken\<newline># Heading'' = ''#&nbsp;42 is broken\<newline>    # Heading''"
proof -
  have a: "FixUpComment ''# Heading\<newline>#42 is broken'' = ''    # Heading\<newline>    #42 is broken''"
    by code_simp
  have b: "FixUpComment ''#42 is broken\<newline># Heading'' = ''#&nbsp;42 is broken\<newline>    # Heading''"
    by code_simp
  have c: "FixUpComment comment =
     join_lines
       (map sub_issue_refs (takeWhile (\<lambda>l. \<not> preformat_trigger l) (split_lines comment)) @
        map (\<lambda>l. ''    '' @ l) (dropWhile (\<lambda>l. \<not> preformat_trigger l) (split_lines comment)))"
    unfolding FixUpComment_def by (rule arg_cong[OF FixUpComment_loop_False])
  from c sub_issue_refs_step[of c cs] a b show ?thesis
    by (intro conjI)
qed

end
